theory Spec2Isabelle
  imports Main "HOL-Library.AList"
begin

section \<open>Strings and pure paths\<close>

text \<open>
  Strings are byte lists (the UTF-8 encoding of Python's \<open>str\<close>). \<open>str.lower()\<close> is
  modelled on the ASCII letters \<open>A\<close>..\<open>Z\<close>; no other code point lowercases to one of the
  letters that occur in the keys of \<open>FORMAT_MAPPING\<close>, so membership of a lowercased suffix
  in that table is decided on the ASCII letters alone.
\<close>

definition lower_char :: "char \<Rightarrow> char" where
  "lower_char c =
     (case map_of (zip ''ABCDEFGHIJKLMNOPQRSTUVWXYZ'' ''abcdefghijklmnopqrstuvwxyz'') c of
        Some l \<Rightarrow> l
      | None \<Rightarrow> c)"

definition lower :: "string \<Rightarrow> string" where
  "lower s = map lower_char s"

text \<open>\<open>sep.join(xs)\<close>.\<close>

fun join :: "string \<Rightarrow> string list \<Rightarrow> string" where
  "join sep [] = []"
| "join sep [x] = x"
| "join sep (x # y # ys) = x @ sep @ join sep (y # ys)"

text \<open>\<open>s.split(c)\<close> for a one-character separator: \<open>n\<close> separators give \<open>n + 1\<close> pieces.\<close>

fun split_on :: "char \<Rightarrow> string \<Rightarrow> string list" where
  "split_on c [] = [[]]"
| "split_on c (x # xs) =
     (if x = c then [] # split_on c xs
      else (case split_on c xs of [] \<Rightarrow> [[x]] | p # ps \<Rightarrow> (x # p) # ps))"

text \<open>
  A path of the file system is the list of its components below the root. The components
  that \<open>pathlib\<close> (POSIX flavour) keeps of a string: the pieces between slashes, without
  the empty ones and the single dots.
\<close>

type_synonym path = "string list"

definition py_parts :: "string \<Rightarrow> path" where
  "py_parts s = filter (\<lambda>c. c \<noteq> [] \<and> c \<noteq> ''.'') (split_on CHR ''/'' s)"

text \<open>\<open>PurePath.name\<close>: the last component, the empty string when there is none.\<close>

definition path_name :: "path \<Rightarrow> string" where
  "path_name p = (if p = [] then [] else last p)"

text \<open>\<open>name.rfind('.')\<close>: the index of the last dot, \<open>-1\<close> when there is none.\<close>

definition rfind_dot :: "string \<Rightarrow> int" where
  "rfind_dot name =
     (if CHR ''.'' \<in> set name
      then int (length name) - 1 - int (length (takeWhile (\<lambda>x. x \<noteq> CHR ''.'') (rev name)))
      else - 1)"

text \<open>
  \<open>PurePath.suffix\<close> and \<open>PurePath.stem\<close> (CPython 3.8 to 3.13):
  \<^verbatim>\<open>
  name = self.name
  i = name.rfind('.')
  if 0 < i < len(name) - 1: return name[i:]     # stem: name[:i]
  else: return ''                               # stem: name
  \<close>
\<close>

definition path_suffix :: "path \<Rightarrow> string" where
  "path_suffix p =
     (let name = path_name p; i = rfind_dot name
      in if 0 < i \<and> i < int (length name) - 1 then drop (nat i) name else [])"

definition path_stem :: "path \<Rightarrow> string" where
  "path_stem p =
     (let name = path_name p; i = rfind_dot name
      in if 0 < i \<and> i < int (length name) - 1 then take (nat i) name else name)"

text \<open>\<open>str(p)\<close> of an absolute path.\<close>

definition str_path :: "path \<Rightarrow> string" where
  "str_path p = (if p = [] then ''/'' else concat (map (\<lambda>c. ''/'' @ c) p))"

text \<open>\<open>d / s\<close>: an absolute right operand replaces the left one.\<close>

definition path_div :: "path \<Rightarrow> string \<Rightarrow> path" where
  "path_div d s = (if s \<noteq> [] \<and> hd s = CHR ''/'' then py_parts s else d @ py_parts s)"

section \<open>The file system\<close>

text \<open>
  The file system is an association list from paths to nodes, in directory order; the
  root \<open>[]\<close> is a directory that always exists. There are no symbolic links and no
  permissions: an operation fails for the structural reasons of POSIX only.
\<close>

datatype node = File string | Dir

type_synonym filesystem = "(path \<times> node) list"

datatype exc_class =
  TimeoutExpired | FileNotFoundError | IsADirectoryError | NotADirectoryError
  | FileExistsError | OSError | KeyError | OtherException

text \<open>An exception below \<open>Exception\<close> that is not an \<open>HTTPException\<close>: its class and \<open>str(e)\<close>.\<close>

datatype fault = Fault exc_class string

fun str_fault :: "fault \<Rightarrow> string" where
  "str_fault (Fault c msg) = msg"

fun fault_class :: "fault \<Rightarrow> exc_class" where
  "fault_class (Fault c msg) = c"

definition os_error :: "exc_class \<Rightarrow> string \<Rightarrow> path \<Rightarrow> fault" where
  "os_error c strerror p = Fault c (strerror @ '': '' @ [CHR 0x27] @ str_path p @ [CHR 0x27])"

definition is_dir :: "filesystem \<Rightarrow> path \<Rightarrow> bool" where
  "is_dir fs p = (p = [] \<or> map_of fs p = Some Dir)"

definition path_exists :: "filesystem \<Rightarrow> path \<Rightarrow> bool" where
  "path_exists fs p = (p = [] \<or> map_of fs p \<noteq> None)"

text \<open>\<open>Path.write_bytes\<close>: creates or truncates the file.\<close>

definition write_bytes :: "filesystem \<Rightarrow> path \<Rightarrow> string \<Rightarrow> fault + filesystem" where
  "write_bytes fs p content =
     (if p = [] \<or> map_of fs p = Some Dir
        then Inl (os_error IsADirectoryError ''[Errno 21] Is a directory'' p)
      else if \<not> path_exists fs (butlast p)
        then Inl (os_error FileNotFoundError ''[Errno 2] No such file or directory'' p)
      else if \<not> is_dir fs (butlast p)
        then Inl (os_error NotADirectoryError ''[Errno 20] Not a directory'' p)
      else Inr (AList.update p (File content) fs))"

text \<open>The entries directly inside a directory, hidden ones included.\<close>

definition dir_entries :: "filesystem \<Rightarrow> path \<Rightarrow> path list" where
  "dir_entries fs d = filter (\<lambda>p. p \<noteq> [] \<and> butlast p = d) (map fst fs)"

text \<open>\<open>Path.unlink\<close>: removes a file, and raises on a directory.\<close>

definition unlink :: "filesystem \<Rightarrow> path \<Rightarrow> fault + filesystem" where
  "unlink fs p =
     (if p = [] then Inl (os_error IsADirectoryError ''[Errno 21] Is a directory'' p)
      else case map_of fs p of
        None \<Rightarrow> Inl (os_error FileNotFoundError ''[Errno 2] No such file or directory'' p)
      | Some Dir \<Rightarrow> Inl (os_error IsADirectoryError ''[Errno 21] Is a directory'' p)
      | Some (File content) \<Rightarrow> Inr (AList.delete p fs))"

text \<open>\<open>Path.rmdir\<close>: removes an empty directory.\<close>

definition rmdir :: "filesystem \<Rightarrow> path \<Rightarrow> fault + filesystem" where
  "rmdir fs d =
     (if d = [] then Inl (os_error OSError ''[Errno 16] Device or resource busy'' d)
      else case map_of fs d of
        None \<Rightarrow> Inl (os_error FileNotFoundError ''[Errno 2] No such file or directory'' d)
      | Some (File content) \<Rightarrow> Inl (os_error NotADirectoryError ''[Errno 20] Not a directory'' d)
      | Some Dir \<Rightarrow>
          if dir_entries fs d \<noteq> [] then Inl (os_error OSError ''[Errno 39] Directory not empty'' d)
          else Inr (AList.delete d fs))"

section \<open>The environment of a request\<close>

text \<open>
  What the code takes from outside itself: the configured binary, the behaviour of
  \<open>subprocess.run\<close> (given the command line and the timeout, it returns a completed
  process or raises, and leaves the file system as the child process left it), the
  directory name \<open>tempfile.mkdtemp\<close> settles on, the value of \<open>uuid.uuid4()\<close>, and the
  order in which \<open>os.scandir\<close> yields the entries of a directory (the operating system
  chooses it, not the code).
\<close>

record completed_process =
  returncode :: int
  stderr :: string

record env =
  LIBREOFFICE_BINARY :: string
  subprocess_run :: "string list \<Rightarrow> nat \<Rightarrow> filesystem \<Rightarrow> (fault + completed_process) \<times> filesystem"
  mkdtemp_path :: path
  uuid4 :: string
  scandir_order :: "path list \<Rightarrow> path list"

text \<open>\<open>tempfile.mkdtemp()\<close>: creates the directory, and raises when it cannot.\<close>

definition mkdtemp :: "env \<Rightarrow> filesystem \<Rightarrow> fault + (path \<times> filesystem)" where
  "mkdtemp e fs =
     (let d = mkdtemp_path e in
      if path_exists fs d
        then Inl (Fault FileExistsError ''[Errno 17] No usable temporary directory name found'')
      else if \<not> is_dir fs (butlast d)
        then Inl (Fault FileNotFoundError ''[Errno 2] No usable temporary directory found'')
      else Inr (d, fs @ [(d, Dir)]))"

text \<open>
  \<open>Path.glob("*")\<close>: the entries directly inside a directory, as \<open>os.scandir\<close> yields
  them; nothing when the path is not a directory.
\<close>

definition glob_star :: "env \<Rightarrow> filesystem \<Rightarrow> path \<Rightarrow> path list" where
  "glob_star e fs d = (if is_dir fs d then scandir_order e (dir_entries fs d) else [])"

section \<open>The format tables\<close>

definition FORMAT_MAPPING :: "(string \<times> string) list" where
  "FORMAT_MAPPING = [(''.doc'', ''.docx''), (''.xls'', ''.xlsx''), (''.ppt'', ''.pptx'')]"

definition LIBREOFFICE_FILTERS :: "(string \<times> string) list" where
  "LIBREOFFICE_FILTERS = [(''.docx'', ''docx''), (''.xlsx'', ''xlsx''), (''.pptx'', ''pptx'')]"

section \<open>The availability prober and the converter invoker\<close>

text \<open>
  Both functions wrap their whole body in \<open>try\<close>; the result type keeps a place for an
  exception that escapes (\<open>Inl\<close>), which the \<open>except\<close> clauses never leave open.
\<close>

definition is_libreoffice_available :: "env \<Rightarrow> filesystem \<Rightarrow> (fault + bool) \<times> filesystem" where
  "is_libreoffice_available e fs =
     (case subprocess_run e [LIBREOFFICE_BINARY e, ''--help''] 5 fs of
        (Inr result, fs') \<Rightarrow> (Inr (returncode result = 0), fs')
      | (Inl ex, fs') \<Rightarrow> (Inr False, fs'))"

definition convert_with_libreoffice ::
  "env \<Rightarrow> path \<Rightarrow> path \<Rightarrow> string \<Rightarrow> filesystem \<Rightarrow> (fault + path option) \<times> filesystem" where
  "convert_with_libreoffice e input_path output_dir output_format fs =
     (let cmd = [LIBREOFFICE_BINARY e, ''--headless'', ''--convert-to'', output_format,
                 ''--outdir'', str_path output_dir, str_path input_path]
      in case subprocess_run e cmd 60 fs of
           (Inr result, fs') \<Rightarrow>
             if returncode result \<noteq> 0 then (Inr None, fs')
             else
               (let expected_name = path_stem input_path @ ''.'' @ output_format;
                    output_path = path_div output_dir expected_name
                in if path_exists fs' output_path then (Inr (Some output_path), fs')
                   else (Inr None, fs'))
         | (Inl ex, fs') \<Rightarrow>
             if fault_class ex = TimeoutExpired then (Inr None, fs') else (Inr None, fs'))"

section \<open>The HTTP operations\<close>

datatype json = JString string | JList "json list" | JObject "(string \<times> json) list"

text \<open>
  What a handler does: it returns a value, raises an \<open>HTTPException\<close> (status code and
  detail), or lets another exception escape to the framework.
\<close>

datatype 'a outcome = Return 'a | HTTPException nat json | Raise fault

record file_response =
  response_path :: string
  response_filename :: string
  media_type :: string

text \<open>An upload: the declared file name, and what \<open>await file.read()\<close> gives.\<close>

record upload_file =
  filename :: string
  read_file :: "fault + string"

type_synonym invoker =
  "path \<Rightarrow> path \<Rightarrow> string \<Rightarrow> filesystem \<Rightarrow> (fault + path option) \<times> filesystem"

definition root :: "env \<Rightarrow> filesystem \<Rightarrow> json outcome \<times> filesystem" where
  "root e fs =
     (case is_libreoffice_available e fs of
        (Inl ex, fs') \<Rightarrow> (Raise ex, fs')
      | (Inr libreoffice_ok, fs') \<Rightarrow>
          (Return (JObject
             [(''status'', JString (if libreoffice_ok then ''healthy'' else ''unhealthy'')),
              (''service'', JString ''Legacy Office Converter''),
              (''supported_formats'', JList (map JString (map fst FORMAT_MAPPING)))]), fs'))"

definition health :: "env \<Rightarrow> filesystem \<Rightarrow> json outcome \<times> filesystem" where
  "health e fs =
     (case is_libreoffice_available e fs of
        (Inl ex, fs') \<Rightarrow> (Raise ex, fs')
      | (Inr libreoffice_ok, fs') \<Rightarrow>
          if \<not> libreoffice_ok
          then (HTTPException 503
                  (JObject [(''status'', JString ''unhealthy''),
                            (''reason'', JString ''LibreOffice binary not responding'')]), fs')
          else (Return (JObject [(''status'', JString ''healthy'')]), fs'))"

text \<open>
  The clean-up of both \<open>except\<close> clauses of \<open>convert_file\<close>:
  \<^verbatim>\<open>
  for f in temp_dir.glob("*"):
      f.unlink()
  temp_dir.rmdir()
  \<close>
  The first operation that raises ends it, with the file system as it is by then.
\<close>

fun unlink_each :: "filesystem \<Rightarrow> path list \<Rightarrow> fault option \<times> filesystem" where
  "unlink_each fs [] = (None, fs)"
| "unlink_each fs (f # rest) =
     (case unlink fs f of Inl ex \<Rightarrow> (Some ex, fs) | Inr fs' \<Rightarrow> unlink_each fs' rest)"

definition cleanup :: "env \<Rightarrow> filesystem \<Rightarrow> path \<Rightarrow> fault option \<times> filesystem" where
  "cleanup e fs temp_dir =
     (case unlink_each fs (glob_star e fs temp_dir) of
        (Some ex, fs') \<Rightarrow> (Some ex, fs')
      | (None, fs') \<Rightarrow>
          (case rmdir fs' temp_dir of Inl ex \<Rightarrow> (Some ex, fs') | Inr fs'' \<Rightarrow> (None, fs'')))"

text \<open>
  The body of the \<open>try\<close> statement of \<open>convert_file\<close>. The converter invoker is a
  parameter, as the name \<open>convert_with_libreoffice\<close> is looked up when the handler runs
  (the tests replace it).
\<close>

definition convert_body ::
  "env \<Rightarrow> invoker \<Rightarrow> upload_file \<Rightarrow> string \<Rightarrow> string \<Rightarrow> string \<Rightarrow> path \<Rightarrow> filesystem
     \<Rightarrow> file_response outcome \<times> filesystem" where
  "convert_body e conv file file_ext output_ext output_format temp_dir fs =
     (let unique_id = uuid4 e;
          input_filename = unique_id @ file_ext;
          input_path = path_div temp_dir input_filename
      in case read_file file of
           Inl ex \<Rightarrow> (Raise ex, fs)
         | Inr content \<Rightarrow>
            (case write_bytes fs input_path content of
               Inl ex \<Rightarrow> (Raise ex, fs)
             | Inr fs1 \<Rightarrow>
                (case conv input_path temp_dir output_format fs1 of
                   (Inl ex, fs2) \<Rightarrow> (Raise ex, fs2)
                 | (Inr output_path, fs2) \<Rightarrow>
                    (case output_path of
                       None \<Rightarrow>
                         (HTTPException 500
                            (JString ''Conversion failed. Please check if the file is valid.''), fs2)
                     | Some out \<Rightarrow>
                         if \<not> path_exists fs2 out
                         then (HTTPException 500
                                 (JString ''Conversion failed. Please check if the file is valid.''), fs2)
                         else
                           (let original_stem = path_stem (py_parts (filename file));
                                output_filename = original_stem @ output_ext
                            in (Return \<lparr>response_path = str_path out,
                                        response_filename = output_filename,
                                        media_type = ''application/octet-stream''\<rparr>, fs2))))))"

definition convert_file ::
  "env \<Rightarrow> invoker \<Rightarrow> upload_file \<Rightarrow> filesystem \<Rightarrow> file_response outcome \<times> filesystem" where
  "convert_file e conv file fs =
     (let file_ext = lower (path_suffix (py_parts (filename file)))
      in case map_of FORMAT_MAPPING file_ext of
           None \<Rightarrow>
             (HTTPException 400
                (JString (''Unsupported file format. Supported formats: ''
                          @ join '', '' (map fst FORMAT_MAPPING))), fs)
         | Some output_ext \<Rightarrow>
            (case map_of LIBREOFFICE_FILTERS output_ext of
               None \<Rightarrow> (Raise (Fault KeyError output_ext), fs)
             | Some output_format \<Rightarrow>
                (case mkdtemp e fs of
                   Inl ex \<Rightarrow> (Raise ex, fs)
                 | Inr (temp_dir, fs0) \<Rightarrow>
                    (case convert_body e conv file file_ext output_ext output_format temp_dir fs0 of
                       (Return response, fs1) \<Rightarrow> (Return response, fs1)
                     | (HTTPException status detail, fs1) \<Rightarrow>
                        (case cleanup e fs1 temp_dir of
                           (Some ex, fs2) \<Rightarrow> (Raise ex, fs2)
                         | (None, fs2) \<Rightarrow> (HTTPException status detail, fs2))
                     | (Raise ex, fs1) \<Rightarrow>
                        (case cleanup e fs1 temp_dir of
                           (Some ex', fs2) \<Rightarrow> (Raise ex', fs2)
                         | (None, fs2) \<Rightarrow>
                             (HTTPException 500
                                (JString (''An error occurred: '' @ str_fault ex)), fs2))))))"

text \<open>The handler as deployed: the invoker is the function of this module.\<close>

definition convert_file_deployed ::
  "env \<Rightarrow> upload_file \<Rightarrow> filesystem \<Rightarrow> file_response outcome \<times> filesystem" where
  "convert_file_deployed e file fs = convert_file e (convert_with_libreoffice e) file fs"

section \<open>A stand-in for the external tool\<close>

text \<open>
  Concrete environments for evaluating the code, in the manner of the mocks of the test
  suite. \<open>soffice_stub res subdirs\<close> raises \<open>res\<close> or exits with the code \<open>res\<close>; called
  for a conversion (seven arguments) it first creates the directories \<open>subdirs\<close> inside the
  output directory and, when it exits with zero, deposits the output file under the name
  the external collaborator contract fixes. \<open>stub_env\<close> lists a directory in the order
  of creation; \<open>scandir_order := rev\<close> gives the opposite order.
\<close>

definition soffice_stub ::
  "(fault + int) \<Rightarrow> string list \<Rightarrow> string list \<Rightarrow> nat \<Rightarrow> filesystem
     \<Rightarrow> (fault + completed_process) \<times> filesystem" where
  "soffice_stub res subdirs cmd t fs =
     (if length cmd \<noteq> 7
      then (case res of Inl ex \<Rightarrow> Inl ex | Inr rc \<Rightarrow> Inr \<lparr>returncode = rc, stderr = ''''\<rparr>, fs)
      else
        (let outdir = py_parts (cmd ! 5);
             fs1 = fold (\<lambda>n. AList.update (outdir @ [n]) Dir) subdirs fs;
             fs2 = (if res = Inr 0
                    then AList.update
                           (path_div outdir (path_stem (py_parts (cmd ! 6)) @ ''.'' @ cmd ! 3))
                           (File ''converted'') fs1
                    else fs1)
         in (case res of Inl ex \<Rightarrow> Inl ex | Inr rc \<Rightarrow> Inr \<lparr>returncode = rc, stderr = ''''\<rparr>, fs2)))"

definition stub_env :: "(fault + int) \<Rightarrow> string list \<Rightarrow> env" where
  "stub_env res subdirs =
     \<lparr>LIBREOFFICE_BINARY = ''soffice'', subprocess_run = soffice_stub res subdirs,
      mkdtemp_path = [''tmp'', ''tmpab12''], uuid4 = ''u-1'',
      scandir_order = (\<lambda>entries. entries)\<rparr>"

definition stub_fs :: filesystem where
  "stub_fs = [([''tmp''], Dir)]"

definition stub_upload :: "string \<Rightarrow> upload_file" where
  "stub_upload name = \<lparr>filename = name, read_file = Inr ''bytes''\<rparr>"

section \<open>Auxiliary facts\<close>

lemmas path_defs = lower_def lower_char_def path_suffix_def path_stem_def py_parts_def
  path_name_def rfind_dot_def path_div_def str_path_def

lemmas fs_defs = path_exists_def is_dir_def write_bytes_def dir_entries_def glob_star_def
  unlink_def rmdir_def mkdtemp_def cleanup_def

lemmas stub_defs = soffice_stub_def stub_env_def stub_fs_def stub_upload_def

lemma format_mapping_None:
  "map_of FORMAT_MAPPING x = None \<longleftrightarrow> x \<notin> {''.doc'', ''.xls'', ''.ppt''}"
  by (simp add: FORMAT_MAPPING_def)

lemma format_mapping_Some:
  "map_of FORMAT_MAPPING x = Some y \<longleftrightarrow>
     (x, y) \<in> {(''.doc'', ''.docx''), (''.xls'', ''.xlsx''), (''.ppt'', ''.pptx'')}"
  by (auto simp: FORMAT_MAPPING_def split: if_splits)

lemma filters_of_mapping:
  "map_of FORMAT_MAPPING x = Some y \<Longrightarrow> map_of LIBREOFFICE_FILTERS y = Some (tl y)"
  by (auto simp: FORMAT_MAPPING_def LIBREOFFICE_FILTERS_def split: if_splits)

lemma keys_message: "join '', '' (map fst FORMAT_MAPPING) = ''.doc, .xls, .ppt''"
  by (simp add: FORMAT_MAPPING_def)

lemma convert_body_http:
  "convert_body e conv file file_ext output_ext output_format temp_dir fs = (HTTPException s d, fs')
     \<Longrightarrow> s = 500 \<and> d = JString ''Conversion failed. Please check if the file is valid.''"
  by (auto simp: convert_body_def Let_def split: sum.splits prod.splits option.splits if_splits)

lemma convert_file_unsupported:
  "lower (path_suffix (py_parts (filename file))) \<notin> {''.doc'', ''.xls'', ''.ppt''} \<Longrightarrow>
   convert_file e conv file fs =
     (HTTPException 400 (JString ''Unsupported file format. Supported formats: .doc, .xls, .ppt''), fs)"
  using format_mapping_None[of "lower (path_suffix (py_parts (filename file)))"]
  by (simp add: convert_file_def Let_def keys_message)

lemma convert_file_supported_not_400:
  assumes "lower (path_suffix (py_parts (filename file))) \<in> {''.doc'', ''.xls'', ''.ppt''}"
  shows "fst (convert_file e conv file fs) \<noteq> HTTPException 400 d"
proof -
  obtain y where y: "map_of FORMAT_MAPPING (lower (path_suffix (py_parts (filename file)))) = Some y"
    using assms format_mapping_None
    by (cases "map_of FORMAT_MAPPING (lower (path_suffix (py_parts (filename file))))") auto
  show ?thesis
    using y filters_of_mapping[OF y]
    by (auto simp: convert_file_def Let_def
        split: sum.splits prod.splits option.splits outcome.splits dest: convert_body_http)
qed

section \<open>The converter invoker\<close>

text \<open>
  C2. For every input path, output directory and target format, the converter invoker
  runs the tool with the timeout 60 and returns the path
  \<open>output_dir / (input_path.stem + "." + output_format)\<close> exactly when the run completes
  (no timeout, no other fault) with exit code zero and that path exists afterwards; in
  every other case it returns \<open>None\<close>. It never lets an exception escape (the result is
  always \<open>Inr\<close>), and it leaves the file system as the subprocess left it.
\<close>

theorem convert_with_libreoffice_result:
  "convert_with_libreoffice e input_path output_dir output_format fs =
     (let ran = subprocess_run e
                  [LIBREOFFICE_BINARY e, ''--headless'', ''--convert-to'', output_format,
                   ''--outdir'', str_path output_dir, str_path input_path] 60 fs;
          output_path = path_div output_dir (path_stem input_path @ ''.'' @ output_format)
      in (Inr (if (\<exists>result. fst ran = Inr result \<and> returncode result = 0)
                   \<and> path_exists (snd ran) output_path
               then Some output_path else None),
          snd ran))"
  by (cases "subprocess_run e
                  [LIBREOFFICE_BINARY e, ''--headless'', ''--convert-to'', output_format,
                   ''--outdir'', str_path output_dir, str_path input_path] 60 fs")
     (auto simp: convert_with_libreoffice_def Let_def split: sum.splits)

theorem convert_with_libreoffice_result_witness:
  "convert_with_libreoffice (stub_env (Inr 0) []) [''tmp'', ''w'', ''in.doc''] [''tmp'', ''w''] ''docx''
     [([''tmp''], Dir), ([''tmp'', ''w''], Dir), ([''tmp'', ''w'', ''in.doc''], File ''bytes'')]
   = (Inr (Some [''tmp'', ''w'', ''in.docx'']),
      [([''tmp''], Dir), ([''tmp'', ''w''], Dir), ([''tmp'', ''w'', ''in.doc''], File ''bytes''),
       ([''tmp'', ''w'', ''in.docx''], File ''converted'')])
   \<and> fst (convert_with_libreoffice (stub_env (Inr 1) []) [''tmp'', ''w'', ''in.doc''] [''tmp'', ''w'']
           ''docx'' stub_fs) = Inr None
   \<and> fst (convert_with_libreoffice (stub_env (Inl (Fault TimeoutExpired ''timed out'')) [])
           [''tmp'', ''w'', ''in.doc''] [''tmp'', ''w''] ''docx'' stub_fs) = Inr None"
  unfolding convert_with_libreoffice_result
  by (simp add: stub_defs path_defs fs_defs Let_def)

section \<open>The availability prober and the health surface\<close>

text \<open>
  C6. The availability prober returns true exactly when the run of the tool with
  \<open>--help\<close> and the timeout 5 completes (the process starts and does not time out) with
  exit code zero; every other outcome gives false. It never lets an exception escape (the
  result is always \<open>Inr\<close>), and it writes no file: the file system afterwards is the one
  the subprocess left.
\<close>

theorem is_libreoffice_available_result:
  "is_libreoffice_available e fs =
     (Inr (\<exists>result. fst (subprocess_run e [LIBREOFFICE_BINARY e, ''--help''] 5 fs) = Inr result
                    \<and> returncode result = 0),
      snd (subprocess_run e [LIBREOFFICE_BINARY e, ''--help''] 5 fs))"
  by (cases "subprocess_run e [LIBREOFFICE_BINARY e, ''--help''] 5 fs")
     (auto simp: is_libreoffice_available_def split: sum.splits)

theorem is_libreoffice_available_result_witness:
  "is_libreoffice_available (stub_env (Inr 0) []) stub_fs = (Inr True, stub_fs)
   \<and> is_libreoffice_available (stub_env (Inr 1) []) stub_fs = (Inr False, stub_fs)
   \<and> is_libreoffice_available (stub_env (Inl (Fault FileNotFoundError ''soffice'')) []) stub_fs
       = (Inr False, stub_fs)"
  unfolding is_libreoffice_available_result
  by (simp add: stub_defs)

text \<open>
  C7. \<open>GET /health\<close> returns the body \<open>{"status": "healthy"}\<close> exactly when the prober
  reports success, and raises the 503 error with the structured detail when it reports
  failure. \<open>GET /\<close> always returns (it raises nothing), and its \<open>supported_formats\<close> field
  is the list of the three legacy extensions.
\<close>

theorem health_root_status:
  "fst (health e fs) =
     (if fst (is_libreoffice_available e fs) = Inr True
      then Return (JObject [(''status'', JString ''healthy'')])
      else HTTPException 503
             (JObject [(''status'', JString ''unhealthy''),
                       (''reason'', JString ''LibreOffice binary not responding'')]))
   \<and> fst (root e fs) =
       Return (JObject
         [(''status'', JString (if fst (is_libreoffice_available e fs) = Inr True
                                then ''healthy'' else ''unhealthy'')),
          (''service'', JString ''Legacy Office Converter''),
          (''supported_formats'', JList [JString ''.doc'', JString ''.xls'', JString ''.ppt''])])"
  by (cases "subprocess_run e [LIBREOFFICE_BINARY e, ''--help''] 5 fs")
     (auto simp: health_def root_def is_libreoffice_available_def FORMAT_MAPPING_def
           split: sum.splits)

theorem health_root_status_witness:
  "fst (health (stub_env (Inr 0) []) stub_fs) = Return (JObject [(''status'', JString ''healthy'')])
   \<and> fst (health (stub_env (Inr 3) []) stub_fs) =
       HTTPException 503
             (JObject [(''status'', JString ''unhealthy''),
                       (''reason'', JString ''LibreOffice binary not responding'')])
   \<and> fst (root (stub_env (Inl (Fault TimeoutExpired ''timed out'')) []) stub_fs) =
       Return (JObject
         [(''status'', JString ''unhealthy''),
          (''service'', JString ''Legacy Office Converter''),
          (''supported_formats'', JList [JString ''.doc'', JString ''.xls'', JString ''.ppt''])])"
proof -
  have a: "fst (is_libreoffice_available (stub_env (Inr 0) []) stub_fs) = Inr True"
    by (simp add: is_libreoffice_available_def stub_defs)
  have b: "fst (is_libreoffice_available (stub_env (Inr 3) []) stub_fs) = Inr False"
    by (simp add: is_libreoffice_available_def stub_defs)
  have c: "fst (is_libreoffice_available (stub_env (Inl (Fault TimeoutExpired ''timed out'')) [])
             stub_fs) = Inr False"
    by (simp add: is_libreoffice_available_def stub_defs)
  show ?thesis
    using health_root_status [of "stub_env (Inr 0) []" stub_fs]
      health_root_status [of "stub_env (Inr 3) []" stub_fs]
      health_root_status [of "stub_env (Inl (Fault TimeoutExpired ''timed out'')) []" stub_fs]
    by (simp only: a b c) simp
qed

section \<open>The conversion handler: validation of the extension\<close>

text \<open>
  C3. When the suffix of the uploaded file name, lowercased, is not one of \<open>.doc\<close>,
  \<open>.xls\<close>, \<open>.ppt\<close> (an empty suffix included), \<open>POST /convert\<close> raises the 400 error whose
  message lists the three supported extensions; when it is one of the three, the handler
  raises no 400 error, whatever else happens.
\<close>

theorem convert_file_400_iff:
  "(if lower (path_suffix (py_parts (filename file))) \<in> {''.doc'', ''.xls'', ''.ppt''}
    then \<forall>d. fst (convert_file e conv file fs) \<noteq> HTTPException 400 d
    else fst (convert_file e conv file fs) =
           HTTPException 400
             (JString ''Unsupported file format. Supported formats: .doc, .xls, .ppt''))"
  using convert_file_supported_not_400 [of "file" e conv fs]
    convert_file_unsupported [of "file" e conv fs]
  by (simp del: insert_iff)

theorem convert_file_400_iff_witness:
  "fst (convert_file (stub_env (Inr 0) []) (convert_with_libreoffice (stub_env (Inr 0) []))
          (stub_upload ''document.pdf'') stub_fs)
     = HTTPException 400 (JString ''Unsupported file format. Supported formats: .doc, .xls, .ppt'')
   \<and> fst (convert_file (stub_env (Inr 0) []) (convert_with_libreoffice (stub_env (Inr 0) []))
          (stub_upload ''document'') stub_fs)
     = HTTPException 400 (JString ''Unsupported file format. Supported formats: .doc, .xls, .ppt'')
   \<and> (\<forall>d. fst (convert_file (stub_env (Inr 0) []) (convert_with_libreoffice (stub_env (Inr 0) []))
          (stub_upload ''TEST.DOC'') stub_fs) \<noteq> HTTPException 400 d)"
proof -
  have a: "lower (path_suffix (py_parts (filename (stub_upload ''document.pdf'')))) = ''.pdf''"
    by (simp add: stub_defs path_defs Let_def)
  have b: "lower (path_suffix (py_parts (filename (stub_upload ''document'')))) = []"
    by (simp add: stub_defs path_defs Let_def)
  have c: "lower (path_suffix (py_parts (filename (stub_upload ''TEST.DOC'')))) = ''.doc''"
    by (simp add: stub_defs path_defs Let_def)
  show ?thesis
    using convert_file_400_iff [of "stub_upload ''document.pdf''" "stub_env (Inr 0) []"
        "convert_with_libreoffice (stub_env (Inr 0) [])" stub_fs]
      convert_file_400_iff [of "stub_upload ''document''" "stub_env (Inr 0) []"
        "convert_with_libreoffice (stub_env (Inr 0) [])" stub_fs]
      convert_file_400_iff [of "stub_upload ''TEST.DOC''" "stub_env (Inr 0) []"
        "convert_with_libreoffice (stub_env (Inr 0) [])" stub_fs]
    by (simp only: a b c) simp
qed

lemma lower_char_dot: "lower_char c = CHR ''.'' \<longleftrightarrow> c = CHR ''.''"
  by (auto simp: lower_char_def split: if_splits)

lemma lower_char_slash: "lower_char c = CHR ''/'' \<longleftrightarrow> c = CHR ''/''"
  by (auto simp: lower_char_def split: if_splits)

lemma lower_char_letter:
  "lower_char c = l \<Longrightarrow> l \<noteq> CHR ''.'' \<Longrightarrow> l \<noteq> CHR ''/'' \<Longrightarrow> c \<noteq> CHR ''.'' \<and> c \<noteq> CHR ''/''"
  using lower_char_dot lower_char_slash by blast

lemma dot_name_no_suffix:
  assumes "lower fn = [CHR ''.'', x, y, z]"
    and "x \<noteq> CHR ''.''" "y \<noteq> CHR ''.''" "z \<noteq> CHR ''.''"
    and "x \<noteq> CHR ''/''" "y \<noteq> CHR ''/''" "z \<noteq> CHR ''/''"
  shows "path_suffix (py_parts fn) = []"
proof -
  from assms(1) obtain a b c d where fn: "fn = [a, b, c, d]"
    and l: "lower_char a = CHR ''.''" "lower_char b = x" "lower_char c = y" "lower_char d = z"
    by (auto simp: lower_def map_eq_Cons_conv)
  have a: "a = CHR ''.''" using l(1) by (simp add: lower_char_dot)
  have b: "b \<noteq> CHR ''.'' \<and> b \<noteq> CHR ''/''" using l(2) assms lower_char_letter by blast
  have c: "c \<noteq> CHR ''.'' \<and> c \<noteq> CHR ''/''" using l(3) assms lower_char_letter by blast
  have d: "d \<noteq> CHR ''.'' \<and> d \<noteq> CHR ''/''" using l(4) assms lower_char_letter by blast
  show ?thesis
    using b c d by (simp add: fn a path_suffix_def py_parts_def path_name_def rfind_dot_def Let_def)
qed

lemma bare_extension_no_suffix:
  "lower fn \<in> {''.doc'', ''.xls'', ''.ppt''} \<Longrightarrow> path_suffix (py_parts fn) = []"
  by (auto intro: dot_name_no_suffix)

text \<open>
  C9. A file name that is nothing but a supported extension, in any letter case (\<open>.doc\<close>,
  \<open>.XLS\<close>, ...), has an empty suffix: its only dot is the first character. The handler
  rejects it with the 400 error and leaves the file system untouched.
\<close>

theorem convert_file_bare_extension:
  assumes "lower (filename file) \<in> {''.doc'', ''.xls'', ''.ppt''}"
  shows "convert_file e conv file fs =
     (HTTPException 400 (JString ''Unsupported file format. Supported formats: .doc, .xls, .ppt''), fs)"
proof -
  have "path_suffix (py_parts (filename file)) = []"
    using assms by (rule bare_extension_no_suffix)
  then have "lower (path_suffix (py_parts (filename file))) \<notin> {''.doc'', ''.xls'', ''.ppt''}"
    by (simp add: lower_def)
  then show ?thesis by (rule convert_file_unsupported)
qed

theorem convert_file_bare_extension_witness:
  "convert_file (stub_env (Inr 0) []) (convert_with_libreoffice (stub_env (Inr 0) []))
      (stub_upload ''.doc'') stub_fs
     = (HTTPException 400 (JString ''Unsupported file format. Supported formats: .doc, .xls, .ppt''),
        stub_fs)
   \<and> convert_file (stub_env (Inr 0) []) (convert_with_libreoffice (stub_env (Inr 0) []))
      (stub_upload ''.XLS'') stub_fs
     = (HTTPException 400 (JString ''Unsupported file format. Supported formats: .doc, .xls, .ppt''),
        stub_fs)"
proof -
  have a: "lower (filename (stub_upload ''.doc'')) \<in> {''.doc'', ''.xls'', ''.ppt''}"
    by (simp add: stub_defs lower_def lower_char_def)
  have b: "lower (filename (stub_upload ''.XLS'')) \<in> {''.doc'', ''.xls'', ''.ppt''}"
    by (simp add: stub_defs lower_def lower_char_def)
  show ?thesis
    using convert_file_bare_extension [OF a] convert_file_bare_extension [OF b] by simp
qed

text \<open>
  C10. When \<open>POST /convert\<close> raises a 400 error, the file system is the one the request
  started with: no workspace was created and nothing was written. The result does not
  depend on the environment or on the invoker either: neither \<open>mkdtemp\<close> nor the converter
  was reached.
\<close>

theorem convert_file_400_no_side_effect:
  assumes "fst (convert_file e conv file fs) = HTTPException 400 d"
  shows "snd (convert_file e conv file fs) = fs
         \<and> convert_file e' conv' file fs = convert_file e conv file fs"
proof -
  have "lower (path_suffix (py_parts (filename file))) \<notin> {''.doc'', ''.xls'', ''.ppt''}"
    using assms convert_file_supported_not_400 by blast
  then show ?thesis by (simp add: convert_file_unsupported)
qed

theorem convert_file_400_no_side_effect_witness:
  "snd (convert_file (stub_env (Inr 0) []) (convert_with_libreoffice (stub_env (Inr 0) []))
          (stub_upload ''document.pdf'') stub_fs) = stub_fs"
proof -
  have "lower (path_suffix (py_parts (filename (stub_upload ''document.pdf''))))
          \<notin> {''.doc'', ''.xls'', ''.ppt''}"
    by (simp add: stub_defs path_defs Let_def)
  then have "fst (convert_file (stub_env (Inr 0) []) (convert_with_libreoffice (stub_env (Inr 0) []))
          (stub_upload ''document.pdf'') stub_fs)
     = HTTPException 400 (JString ''Unsupported file format. Supported formats: .doc, .xls, .ppt'')"
    by (simp add: convert_file_unsupported)
  then show ?thesis
    using convert_file_400_no_side_effect by blast
qed

section \<open>The conversion handler: the response file name\<close>

lemma convert_body_Return:
  "convert_body e conv file file_ext output_ext output_format temp_dir fs = (Return r, fs')
     \<Longrightarrow> response_filename r = path_stem (py_parts (filename file)) @ output_ext"
  by (auto simp: convert_body_def Let_def split: sum.splits prod.splits option.splits if_splits)

lemma convert_file_Return:
  assumes "fst (convert_file e conv file fs) = Return r"
  shows "\<exists>ext. map_of FORMAT_MAPPING (lower (path_suffix (py_parts (filename file)))) = Some ext
           \<and> response_filename r = path_stem (py_parts (filename file)) @ ext"
  using assms
  by (auto simp: convert_file_def Let_def
      split: sum.splits prod.splits option.splits outcome.splits dest: convert_body_Return)

lemma stem_suffix_name: "path_stem p @ path_suffix p = path_name p"
  by (simp add: path_stem_def path_suffix_def Let_def)

lemma split_on_no_sep: "c \<notin> set s \<Longrightarrow> split_on c s = [s]"
  by (induction s) auto

lemma name_of_plain:
  assumes "CHR ''/'' \<notin> set s" and "path_suffix (py_parts s) \<noteq> []"
  shows "path_name (py_parts s) = s"
proof -
  have "py_parts s = (if s \<noteq> [] \<and> s \<noteq> ''.'' then [s] else [])"
    using assms(1) by (simp add: py_parts_def split_on_no_sep)
  moreover have "py_parts s \<noteq> []"
    using assms(2) by (auto simp: path_suffix_def path_name_def rfind_dot_def Let_def)
  ultimately show ?thesis by (auto simp: path_name_def split: if_splits)
qed

text \<open>
  C4. When \<open>POST /convert\<close> succeeds, the file name of the response is the stem of the
  uploaded name followed by the modern extension that the table gives for the lowercased
  suffix (\<open>.doc\<close> to \<open>.docx\<close>, \<open>.xls\<close> to \<open>.xlsx\<close>, \<open>.ppt\<close> to \<open>.pptx\<close>). Stem and suffix
  together are the last component of the uploaded name, which is the whole name when it
  has no slash. The name is the same under every environment, so it does not depend on
  the workspace or on the staging name.
\<close>

theorem convert_file_response_filename:
  assumes "fst (convert_file e conv file fs) = Return r"
  shows "\<exists>ext. (lower (path_suffix (py_parts (filename file))), ext)
                 \<in> {(''.doc'', ''.docx''), (''.xls'', ''.xlsx''), (''.ppt'', ''.pptx'')}
           \<and> response_filename r = path_stem (py_parts (filename file)) @ ext
           \<and> path_stem (py_parts (filename file)) @ path_suffix (py_parts (filename file))
               = path_name (py_parts (filename file))
           \<and> (CHR ''/'' \<notin> set (filename file) \<longrightarrow> path_name (py_parts (filename file)) = filename file)
           \<and> (\<forall>e' conv' fs' r'. fst (convert_file e' conv' file fs') = Return r'
                 \<longrightarrow> response_filename r' = response_filename r)"
proof -
  from convert_file_Return [OF assms] obtain ext
    where ext: "map_of FORMAT_MAPPING (lower (path_suffix (py_parts (filename file)))) = Some ext"
      and name: "response_filename r = path_stem (py_parts (filename file)) @ ext"
    by blast
  have "lower (path_suffix (py_parts (filename file))) \<noteq> []"
    using ext by (auto simp: format_mapping_Some)
  then have nonempty: "path_suffix (py_parts (filename file)) \<noteq> []"
    by (auto simp: lower_def)
  have same: "response_filename r' = response_filename r"
    if "fst (convert_file e' conv' file fs') = Return r'" for e' conv' fs' r'
    using convert_file_Return [OF that] ext name by auto
  show ?thesis
    using ext name nonempty same
    by (intro exI [of _ ext]) (auto simp: format_mapping_Some stem_suffix_name name_of_plain)
qed

theorem convert_file_response_filename_witness:
  "\<exists>r. fst (convert_file (stub_env (Inr 0) []) (convert_with_libreoffice (stub_env (Inr 0) []))
          (stub_upload ''test.doc'') stub_fs) = Return r
       \<and> response_filename r = ''test.docx''"
proof -
  have run: "fst (convert_file (stub_env (Inr 0) []) (convert_with_libreoffice (stub_env (Inr 0) []))
          (stub_upload ''test.doc'') stub_fs)
      = Return \<lparr>response_path = ''/tmp/tmpab12/u-1.docx'', response_filename = ''test.docx'',
                media_type = ''application/octet-stream''\<rparr>"
    by (simp add: convert_file_def convert_body_def convert_with_libreoffice_def
        FORMAT_MAPPING_def LIBREOFFICE_FILTERS_def stub_defs path_defs fs_defs Let_def)
  have stem: "path_stem (py_parts (filename (stub_upload ''test.doc''))) = ''test''"
    by (simp add: stub_defs path_defs Let_def)
  have suffix: "lower (path_suffix (py_parts (filename (stub_upload ''test.doc'')))) = ''.doc''"
    by (simp add: stub_defs path_defs Let_def)
  from convert_file_response_filename [OF run]
  have "response_filename \<lparr>response_path = ''/tmp/tmpab12/u-1.docx'', response_filename = ''test.docx'',
                media_type = ''application/octet-stream''\<rparr> = ''test.docx''"
    by simp
  with run show ?thesis by simp
qed

section \<open>The conversion handler: teardown of the workspace\<close>

lemmas handler_defs = convert_file_def convert_body_def convert_with_libreoffice_def
  FORMAT_MAPPING_def LIBREOFFICE_FILTERS_def

text \<open>
  C5 fails when the clean-up raises. The upload is \<open>test.doc\<close>; the tool creates a
  directory inside the output directory and exits with code 1. The converter invoker
  returns no result and the handler raises the 500 error "Conversion failed. Please check
  if the file is valid."; in the \<open>except HTTPException\<close> clause \<open>unlink\<close> then raises
  \<open>IsADirectoryError\<close> on the nested directory, and that exception leaves the handler in
  place of the 500 error. The workspace has two entries, and the outcome is the same in
  both orders of listing them.
\<close>

theorem convert_file_conversion_failure_masked:
  "fst (convert_with_libreoffice (stub_env (Inr 1) [''lu1.tmp''])
          [''tmp'', ''tmpab12'', ''u-1.doc''] [''tmp'', ''tmpab12''] ''docx''
          [([''tmp''], Dir), ([''tmp'', ''tmpab12''], Dir),
           ([''tmp'', ''tmpab12'', ''u-1.doc''], File ''bytes'')]) = Inr None
   \<and> fst (convert_file (stub_env (Inr 1) [''lu1.tmp''])
            (convert_with_libreoffice (stub_env (Inr 1) [''lu1.tmp'']))
            (stub_upload ''test.doc'') stub_fs)
       = Raise (os_error IsADirectoryError ''[Errno 21] Is a directory''
                  [''tmp'', ''tmpab12'', ''lu1.tmp''])
   \<and> fst (convert_file ((stub_env (Inr 1) [''lu1.tmp''])\<lparr>scandir_order := rev\<rparr>)
            (convert_with_libreoffice ((stub_env (Inr 1) [''lu1.tmp''])\<lparr>scandir_order := rev\<rparr>))
            (stub_upload ''test.doc'') stub_fs)
       = Raise (os_error IsADirectoryError ''[Errno 21] Is a directory''
                  [''tmp'', ''tmpab12'', ''lu1.tmp''])"
  by (simp add: handler_defs stub_defs fs_defs path_defs Let_def)

text \<open>
  C8 fails: the teardown is neither recursive nor absorbing. The upload is \<open>test.doc\<close> and
  the tool times out. When it leaves the workspace flat, the teardown completes, the
  workspace is gone and the caller receives the 500 error "Conversion failed". When it
  has created a directory inside the workspace, \<open>unlink\<close> raises \<open>IsADirectoryError\<close> on it:
  the caller receives that exception instead of the 500 error, and the workspace and the
  nested directory stay on disk (with the staged input too when the directory is listed
  first). The workspace has two entries; both orders of listing them are evaluated.
\<close>

theorem convert_file_teardown_not_absorbed:
  "convert_file (stub_env (Inl (Fault TimeoutExpired ''timed out'')) [])
     (convert_with_libreoffice (stub_env (Inl (Fault TimeoutExpired ''timed out'')) []))
     (stub_upload ''test.doc'') stub_fs
   = (HTTPException 500 (JString ''Conversion failed. Please check if the file is valid.''), stub_fs)
   \<and> convert_file (stub_env (Inl (Fault TimeoutExpired ''timed out'')) [''lu1.tmp''])
     (convert_with_libreoffice (stub_env (Inl (Fault TimeoutExpired ''timed out'')) [''lu1.tmp'']))
     (stub_upload ''test.doc'') stub_fs
   = (Raise (os_error IsADirectoryError ''[Errno 21] Is a directory''
               [''tmp'', ''tmpab12'', ''lu1.tmp'']),
      [([''tmp''], Dir), ([''tmp'', ''tmpab12''], Dir), ([''tmp'', ''tmpab12'', ''lu1.tmp''], Dir)])
   \<and> convert_file
     ((stub_env (Inl (Fault TimeoutExpired ''timed out'')) [''lu1.tmp''])\<lparr>scandir_order := rev\<rparr>)
     (convert_with_libreoffice
        ((stub_env (Inl (Fault TimeoutExpired ''timed out'')) [''lu1.tmp''])\<lparr>scandir_order := rev\<rparr>))
     (stub_upload ''test.doc'') stub_fs
   = (Raise (os_error IsADirectoryError ''[Errno 21] Is a directory''
               [''tmp'', ''tmpab12'', ''lu1.tmp'']),
      [([''tmp''], Dir), ([''tmp'', ''tmpab12''], Dir),
       ([''tmp'', ''tmpab12'', ''u-1.doc''], File ''bytes''),
       ([''tmp'', ''tmpab12'', ''lu1.tmp''], Dir)])"
  by (simp add: handler_defs stub_defs fs_defs path_defs Let_def)

text \<open>
  C1 fails on the success path: the handler returns the file response without any
  clean-up, so the workspace directory, the staged input and the converted output are
  all still on disk when it returns. Only the two \<open>except\<close> clauses remove the workspace.
\<close>

theorem convert_file_success_keeps_workspace:
  "convert_file_deployed (stub_env (Inr 0) []) (stub_upload ''test.doc'') stub_fs
   = (Return \<lparr>response_path = ''/tmp/tmpab12/u-1.docx'', response_filename = ''test.docx'',
               media_type = ''application/octet-stream''\<rparr>,
      [([''tmp''], Dir), ([''tmp'', ''tmpab12''], Dir),
       ([''tmp'', ''tmpab12'', ''u-1.doc''], File ''bytes''),
       ([''tmp'', ''tmpab12'', ''u-1.docx''], File ''converted'')])"
  by (simp add: convert_file_deployed_def handler_defs stub_defs fs_defs path_defs Let_def)

end
